theory Spec2Isabelle
  imports Complex_Main
begin

section \<open>Dilated U-Net graph construction (rvseg/models/dilatedunet.py)\<close>

text \<open>
  The module builds a Keras layer graph. Building is modelled as explicit state passing:
  the state is the list of layer nodes created so far (append-only), a tensor handle is
  the index of its producing node together with its static shape (batch axis elided),
  and every Python exception is a value of type \<open>error\<close>.
  Python integers are \<open>int\<close> (\<open>%\<close> is \<open>mod\<close>, \<open>//\<close> is \<open>div\<close>, both flooring);
  \<open>temperature\<close> and \<open>dropout\<close> are only compared with zero or stored, so they are
  \<open>real\<close>.
\<close>

subsection \<open>Data model\<close>

datatype error = AssertionError string | ValueError string | IndexError

text \<open>
  The \<open>padding\<close> argument is a Python string; \<open>Unrecognized\<close> stands for every string
  that the convolution layer does not accept.
\<close>

datatype padding = Valid | Same | Unrecognized

record tensor =
  node_id :: nat
  t_height :: int
  t_width :: int
  t_channels :: int

datatype layer =
    Input
  | Conv2D int "int \<times> int" padding int
  | Conv2DTranspose int "int \<times> int" "int \<times> int" padding
  | BatchNormalization
  | Activation string
  | Dropout real
  | MaxPooling2D "int \<times> int"
  | Cropping2D "(int \<times> int) \<times> (int \<times> int)"
  | Concatenate
  | Lambda_divide real

record node =
  layer :: layer
  inbound :: "nat list"
  out_shape :: "int \<times> int \<times> int"

type_synonym graph = "node list"

type_synonym 'a build = "graph \<Rightarrow> (error + 'a) \<times> graph"

definition ok :: "'a \<Rightarrow> 'a build" where
  "ok v g = (Inr v, g)"

definition raise :: "error \<Rightarrow> 'a build" where
  "raise e g = (Inl e, g)"

text \<open>Sequencing: an exception ends the build, keeping the nodes created before it.\<close>

definition and_then :: "'a build \<Rightarrow> ('a \<Rightarrow> 'b build) \<Rightarrow> 'b build" where
  "and_then m f g = (case m g of (Inl e, g') \<Rightarrow> (Inl e, g') | (Inr v, g') \<Rightarrow> f v g')"

definition add_layer :: "layer \<Rightarrow> tensor list \<Rightarrow> int \<times> int \<times> int \<Rightarrow> tensor build" where
  "add_layer l ins shp g =
     (Inr \<lparr>node_id = length g, t_height = fst shp, t_width = fst (snd shp),
           t_channels = snd (snd shp)\<rparr>,
      g @ [\<lparr>layer = l, inbound = map node_id ins, out_shape = shp\<rparr>])"

subsection \<open>The layer library (Keras), which the repository imports\<close>

text \<open>
  The layers are not code of the repository. Each is modelled by the static shape rule
  that the library itself applies to its output (what \<open>K.int_shape\<close> reads back in the
  blocks below) and by the one argument check that matters here, the padding mode of a
  convolution. A tensor size that the library computes is taken as it is; the concrete
  builds evaluated further down keep every size positive.
\<close>

text \<open>
  Modelled from the spec: the library's shape inference for convolution and pooling
  windows, absent from the repository. Spec: "valid = output shrinks by kernel footprint;
  same = output shape preserved"; a kernel of size k with dilation d has the footprint
  \<open>k + (k - 1) * (d - 1)\<close>, and a stride s divides the length, rounding up.
\<close>

definition conv_output_length :: "int \<Rightarrow> int \<Rightarrow> padding \<Rightarrow> int \<Rightarrow> int \<Rightarrow> int" where
  "conv_output_length input_length filter_size p stride dilation =
     (let dilated_filter_size = filter_size + (filter_size - 1) * (dilation - 1);
          output_length = (case p of Same \<Rightarrow> input_length
                           | _ \<Rightarrow> input_length - dilated_filter_size + 1)
      in (output_length + stride - 1) div stride)"

text \<open>
  Modelled from the spec: the library's Input layer, absent from the repository: a
  placeholder of shape (height, width, channels).
\<close>

definition input_layer :: "int \<times> int \<times> int \<Rightarrow> tensor build" where
  "input_layer shp = add_layer Input [] shp"

text \<open>
  Modelled from the spec: the library's Conv2D layer, absent from the repository, with
  stride 1. An unrecognized padding mode is rejected "as soon as the invalid value is
  used": when the layer is constructed, before a node is added.
\<close>

definition conv2d :: "int \<Rightarrow> int \<times> int \<Rightarrow> padding \<Rightarrow> int \<Rightarrow> tensor \<Rightarrow> tensor build" where
  "conv2d filters kernel_size p dilation_rate x =
     (if p = Unrecognized then raise (ValueError ''padding'')
      else add_layer (Conv2D filters kernel_size p dilation_rate) [x]
             (conv_output_length (t_height x) (fst kernel_size) p 1 dilation_rate,
              conv_output_length (t_width x) (snd kernel_size) p 1 dilation_rate,
              filters))"

text \<open>
  Modelled from the spec: the library's Conv2DTranspose layer, absent from the
  repository, in its default padding mode valid: "a learned 2x2 transposed convolution
  with stride 2 ... doubling spatial resolution and projecting to filters channels"; in
  general a length n becomes \<open>n * stride + max (kernel - stride) 0\<close>.
\<close>

definition deconv_length :: "int \<Rightarrow> int \<Rightarrow> int \<Rightarrow> int" where
  "deconv_length dim_size stride_size kernel_size =
     dim_size * stride_size + max (kernel_size - stride_size) 0"

definition conv2d_transpose :: "int \<Rightarrow> int \<times> int \<Rightarrow> int \<times> int \<Rightarrow> tensor \<Rightarrow> tensor build" where
  "conv2d_transpose filters kernel_size strides x =
     add_layer (Conv2DTranspose filters kernel_size strides Valid) [x]
       (deconv_length (t_height x) (fst strides) (fst kernel_size),
        deconv_length (t_width x) (snd strides) (snd kernel_size),
        filters)"

text \<open>
  Modelled from the spec: the library's MaxPooling2D layer, absent from the repository:
  "2x2 max-pooling (stride 2, non-overlapping)"; the strides default to the pool size
  and the window is never padded.
\<close>

definition max_pooling2d :: "int \<times> int \<Rightarrow> tensor \<Rightarrow> tensor build" where
  "max_pooling2d pool_size x =
     add_layer (MaxPooling2D pool_size) [x]
       (conv_output_length (t_height x) (fst pool_size) Valid (fst pool_size) 1,
        conv_output_length (t_width x) (snd pool_size) Valid (snd pool_size) 1,
        t_channels x)"

text \<open>
  Modelled from the spec: the library's Cropping2D layer, absent from the repository,
  which removes the given numbers of rows from top and bottom and of columns from left
  and right.
\<close>

definition cropping2d :: "(int \<times> int) \<times> (int \<times> int) \<Rightarrow> tensor \<Rightarrow> tensor build" where
  "cropping2d cropping x =
     add_layer (Cropping2D cropping) [x]
       (t_height x - fst (fst cropping) - snd (fst cropping),
        t_width x - fst (snd cropping) - snd (snd cropping),
        t_channels x)"

text \<open>
  Modelled from the spec: the library's Concatenate layer, absent from the repository,
  joining two tensors along the channel axis; it rejects inputs whose heights or widths
  differ.
\<close>

definition concatenate :: "tensor \<Rightarrow> tensor \<Rightarrow> tensor build" where
  "concatenate x y =
     (if t_height x = t_height y \<and> t_width x = t_width y
      then add_layer Concatenate [x, y] (t_height x, t_width x, t_channels x + t_channels y)
      else raise (ValueError ''concatenate''))"

text \<open>
  Modelled from the spec: the library's shape-preserving layers, absent from the
  repository: batch normalisation, activation, dropout (the rate is stored) and the
  Lambda layer. The source hands the Lambda layer the function \<open>z / temperature\<close>
  (line 120); the layer applies it to a symbolic tensor, so building the graph records
  the division and only executing the graph performs it.
\<close>

definition same_shape :: "tensor \<Rightarrow> int \<times> int \<times> int" where
  "same_shape x = (t_height x, t_width x, t_channels x)"

definition batch_normalization :: "tensor \<Rightarrow> tensor build" where
  "batch_normalization x = add_layer BatchNormalization [x] (same_shape x)"

definition activation :: "string \<Rightarrow> tensor \<Rightarrow> tensor build" where
  "activation name x = add_layer (Activation name) [x] (same_shape x)"

definition dropout_layer :: "real \<Rightarrow> tensor \<Rightarrow> tensor build" where
  "dropout_layer rate x = add_layer (Dropout rate) [x] (same_shape x)"

definition lambda_divide :: "real \<Rightarrow> tensor \<Rightarrow> tensor build" where
  "lambda_divide temperature x = add_layer (Lambda_divide temperature) [x] (same_shape x)"

subsection \<open>downsampling_block (lines 10-27)\<close>

definition downsampling_block ::
  "tensor \<Rightarrow> int \<Rightarrow> padding \<Rightarrow> bool \<Rightarrow> real \<Rightarrow> (tensor \<times> tensor) build" where
  "downsampling_block input_tensor filters p batchnorm dropout =
     (if t_height input_tensor mod 2 \<noteq> 0 then raise (AssertionError ''height % 2 == 0'')
      else if t_width input_tensor mod 2 \<noteq> 0 then raise (AssertionError ''width % 2 == 0'')
      else
        and_then (conv2d filters (3, 3) p 1 input_tensor) (\<lambda>x.
        and_then (if batchnorm then batch_normalization x else ok x) (\<lambda>x.
        and_then (activation ''relu'' x) (\<lambda>x.
        and_then (if dropout > 0 then dropout_layer dropout x else ok x) (\<lambda>x.
        and_then (conv2d filters (3, 3) p 2 x) (\<lambda>x.
        and_then (if batchnorm then batch_normalization x else ok x) (\<lambda>x.
        and_then (activation ''relu'' x) (\<lambda>x.
        and_then (if dropout > 0 then dropout_layer dropout x else ok x) (\<lambda>x.
        and_then (max_pooling2d (2, 2) x) (\<lambda>pooled.
        ok (pooled, x)))))))))))"

subsection \<open>upsampling_block (lines 29-59)\<close>

definition upsampling_block ::
  "tensor \<Rightarrow> tensor \<Rightarrow> int \<Rightarrow> padding \<Rightarrow> bool \<Rightarrow> real \<Rightarrow> tensor build" where
  "upsampling_block input_tensor skip_tensor filters p batchnorm dropout =
     and_then (conv2d_transpose filters (2, 2) (2, 2) input_tensor) (\<lambda>x.
     let h_crop = t_height skip_tensor - t_height x;
         w_crop = t_width skip_tensor - t_width x
     in
     if \<not> h_crop \<ge> 0 then raise (AssertionError ''h_crop >= 0'')
     else if \<not> w_crop \<ge> 0 then raise (AssertionError ''w_crop >= 0'')
     else
       and_then (if h_crop = 0 \<and> w_crop = 0 then ok skip_tensor
                 else cropping2d ((h_crop div 2, h_crop - h_crop div 2),
                                  (w_crop div 2, w_crop - w_crop div 2)) skip_tensor) (\<lambda>y.
       and_then (concatenate x y) (\<lambda>x.
       and_then (conv2d filters (3, 3) p 1 x) (\<lambda>x.
       and_then (if batchnorm then batch_normalization x else ok x) (\<lambda>x.
       and_then (activation ''relu'' x) (\<lambda>x.
       and_then (if dropout > 0 then dropout_layer dropout x else ok x) (\<lambda>x.
       and_then (conv2d filters (3, 3) p 1 x) (\<lambda>x.
       and_then (if batchnorm then batch_normalization x else ok x) (\<lambda>x.
       and_then (activation ''relu'' x) (\<lambda>x.
       (if dropout > 0 then dropout_layer dropout x else ok x)))))))))))"

subsection \<open>dilated_unet (lines 62-123)\<close>

text \<open>
  The encoder loop (lines 97-102): \<open>range(depth)\<close> runs \<open>nat depth\<close> times, the loop
  variable is not used. The loop state is the current tensor, the feature count and the
  skip list.
\<close>

fun encoder ::
  "nat \<Rightarrow> tensor \<Rightarrow> int \<Rightarrow> tensor list \<Rightarrow> padding \<Rightarrow> bool \<Rightarrow> real
     \<Rightarrow> (tensor \<times> tensor list \<times> int) build" where
  "encoder 0 x features skips p batchnorm dropout = ok (x, skips, features)"
| "encoder (Suc n) x features skips p batchnorm dropout =
     and_then (downsampling_block x features p batchnorm dropout) (\<lambda>(x', x0).
       encoder n x' (features * 2) (skips @ [x0]) p batchnorm dropout)"

text \<open>
  The bottleneck loop (lines 104-111): \<open>range(dilation_layers)\<close> runs
  \<open>nat dilation_layers\<close> times; the loop state is the current tensor and the dilation
  rate, \<open>features\<close> is read only.
\<close>

fun bottleneck ::
  "nat \<Rightarrow> tensor \<Rightarrow> int \<Rightarrow> int \<Rightarrow> padding \<Rightarrow> bool \<Rightarrow> real \<Rightarrow> tensor build" where
  "bottleneck 0 x features dilation_rate p batchnorm dropout = ok x"
| "bottleneck (Suc n) x features dilation_rate p batchnorm dropout =
     and_then (conv2d features (3, 3) p dilation_rate x) (\<lambda>x.
     and_then (if batchnorm then batch_normalization x else ok x) (\<lambda>x.
     and_then (activation ''relu'' x) (\<lambda>x.
     and_then (if dropout > 0 then dropout_layer dropout x else ok x) (\<lambda>x.
       bottleneck n x features (dilation_rate * 2) p batchnorm dropout))))"

text \<open>
  The decoder loop (lines 113-116) over the indices \<open>reversed(range(depth))\<close>;
  \<open>skips[i]\<close> raises IndexError outside the list.
\<close>

fun decoder ::
  "nat list \<Rightarrow> tensor \<Rightarrow> int \<Rightarrow> tensor list \<Rightarrow> padding \<Rightarrow> bool \<Rightarrow> real
     \<Rightarrow> (tensor \<times> int) build" where
  "decoder [] x features skips p batchnorm dropout = ok (x, features)"
| "decoder (i # is) x features skips p batchnorm dropout =
     (if i < length skips
      then and_then (upsampling_block x (skips ! i) (features div 2) p batchnorm dropout)
             (\<lambda>x'. decoder is x' (features div 2) skips p batchnorm dropout)
      else raise IndexError)"

text \<open>
  The result of a build: the output tensor of the model, or the exception raised, and the
  nodes created up to that point. The final 1x1 convolution takes the library's default
  padding mode (valid) and dilation rate 1.
\<close>

definition dilated_unet ::
  "int \<Rightarrow> int \<Rightarrow> int \<Rightarrow> int \<Rightarrow> int \<Rightarrow> int \<Rightarrow> real \<Rightarrow> padding \<Rightarrow> bool \<Rightarrow> real \<Rightarrow> int
     \<Rightarrow> (error + tensor) \<times> graph" where
  "dilated_unet height width channels classes features depth temperature p batchnorm
       dropout dilation_layers =
     and_then (input_layer (height, width, channels)) (\<lambda>inputs.
     and_then (encoder (nat depth) inputs features [] p batchnorm dropout)
       (\<lambda>(x, skips, features).
     and_then (bottleneck (nat dilation_layers) x features 1 p batchnorm dropout) (\<lambda>x.
     and_then (decoder (rev [0..<nat depth]) x features skips p batchnorm dropout)
       (\<lambda>(x, features).
     and_then (conv2d classes (1, 1) Valid 1 x) (\<lambda>x.
     and_then (lambda_divide temperature x) (\<lambda>logits.
     and_then (activation ''softmax'' logits) (\<lambda>probabilities.
     ok probabilities))))))) []"

subsection \<open>The loops read stage by stage (spec, sections 3 and 4.3)\<close>

text \<open>
  The spec's words for the encoder and decoder phases, with the feature count of stage
  \<open>i\<close> written out: the counter starts at \<open>features\<close> and is "doubled after every
  encoder stage", so encoder stage \<open>i\<close> runs with \<open>features * 2 ^ i\<close>; the decoder
  runs "for i in depth-1..0 (descending)" on \<open>skip_list[i]\<close> and its "feature counts are
  the exact reverse sequence of encoder feature counts", so decoder stage \<open>i\<close> runs with
  \<open>features * 2 ^ i\<close> as well. These definitions are compared with the loops of the
  source, which keep a running counter instead.
\<close>

fun encoder_by_stage ::
  "nat list \<Rightarrow> tensor \<Rightarrow> int \<Rightarrow> tensor list \<Rightarrow> padding \<Rightarrow> bool \<Rightarrow> real
     \<Rightarrow> (tensor \<times> tensor list) build" where
  "encoder_by_stage [] x features0 skips p batchnorm dropout = ok (x, skips)"
| "encoder_by_stage (i # is) x features0 skips p batchnorm dropout =
     and_then (downsampling_block x (features0 * 2 ^ i) p batchnorm dropout) (\<lambda>(x', x0).
       encoder_by_stage is x' features0 (skips @ [x0]) p batchnorm dropout)"

fun decoder_by_stage ::
  "nat list \<Rightarrow> tensor \<Rightarrow> int \<Rightarrow> tensor list \<Rightarrow> padding \<Rightarrow> bool \<Rightarrow> real \<Rightarrow> tensor build" where
  "decoder_by_stage [] x features0 skips p batchnorm dropout = ok x"
| "decoder_by_stage (i # is) x features0 skips p batchnorm dropout =
     (if i < length skips
      then and_then (upsampling_block x (skips ! i) (features0 * 2 ^ i) p batchnorm dropout)
             (\<lambda>x'. decoder_by_stage is x' features0 skips p batchnorm dropout)
      else raise IndexError)"

definition dilated_unet_by_stage ::
  "int \<Rightarrow> int \<Rightarrow> int \<Rightarrow> int \<Rightarrow> int \<Rightarrow> int \<Rightarrow> real \<Rightarrow> padding \<Rightarrow> bool \<Rightarrow> real \<Rightarrow> int
     \<Rightarrow> (error + tensor) \<times> graph" where
  "dilated_unet_by_stage height width channels classes features0 depth temperature p batchnorm
       dropout dilation_layers =
     and_then (input_layer (height, width, channels)) (\<lambda>inputs.
     and_then (encoder_by_stage [0..<nat depth] inputs features0 [] p batchnorm dropout)
       (\<lambda>(x, skips).
     and_then (bottleneck (nat dilation_layers) x (features0 * 2 ^ nat depth) 1 p batchnorm
                 dropout) (\<lambda>x.
     and_then (decoder_by_stage (rev [0..<nat depth]) x features0 skips p batchnorm dropout)
       (\<lambda>x.
     and_then (conv2d classes (1, 1) Valid 1 x) (\<lambda>x.
     and_then (lambda_divide temperature x) (\<lambda>logits.
     and_then (activation ''softmax'' logits) (\<lambda>probabilities.
     ok probabilities))))))) []"

subsection \<open>Shape relations used in the proofs\<close>

text \<open>
  A decoder input fits a skip tensor when its doubled spatial size does not exceed the
  skip tensor's; a chain lists the skip tensors from the deepest one outwards, each
  fitting the next.
\<close>

definition fits :: "tensor \<Rightarrow> tensor \<Rightarrow> bool" where
  "fits x s = (2 * t_height x \<le> t_height s \<and> 2 * t_width x \<le> t_width s)"

fun chain :: "tensor list \<Rightarrow> tensor \<Rightarrow> bool" where
  "chain [] x = True"
| "chain (s # ss) x = (fits x s \<and> chain ss s)"


text \<open>A build step only ever appends nodes to the graph.\<close>

definition grows :: "'a build \<Rightarrow> bool" where
  "grows m = (\<forall>g. \<exists>g'. snd (m g) = g @ g')"

section \<open>Basic facts about sequencing and the blocks\<close>

lemmas layer_defs = ok_def raise_def add_layer_def input_layer_def conv2d_def
   conv_output_length_def deconv_length_def conv2d_transpose_def max_pooling2d_def cropping2d_def concatenate_def
   same_shape_def batch_normalization_def activation_def dropout_layer_def lambda_divide_def

lemma and_then_Inr:
  "and_then m f g = (Inr v, g') \<longleftrightarrow> (\<exists>u g1. m g = (Inr u, g1) \<and> f u g1 = (Inr v, g'))"
  by (auto simp: and_then_def split: prod.splits sum.splits)

lemma and_then_Inl:
  "and_then m f g = (Inl e, g') \<longleftrightarrow>
     m g = (Inl e, g') \<or> (\<exists>u g1. m g = (Inr u, g1) \<and> f u g1 = (Inl e, g'))"
  by (auto simp: and_then_def split: prod.splits sum.splits)

lemma and_then_assoc:
  "and_then (and_then m f) k = and_then m (\<lambda>x. and_then (f x) k)"
  by (rule ext) (simp add: and_then_def split: prod.splits sum.splits)

lemma downsampling_block_odd_height:
  "odd (t_height x) \<Longrightarrow>
     downsampling_block x F p bn dr g = (Inl (AssertionError ''height % 2 == 0''), g)"
  by (simp add: downsampling_block_def raise_def odd_iff_mod_2_eq_one)

lemma downsampling_block_odd_width:
  "even (t_height x) \<Longrightarrow> odd (t_width x) \<Longrightarrow>
     downsampling_block x F p bn dr g = (Inl (AssertionError ''width % 2 == 0''), g)"
  by (simp add: downsampling_block_def raise_def odd_iff_mod_2_eq_one)

lemma downsampling_block_padding:
  "even (t_height x) \<Longrightarrow> even (t_width x) \<Longrightarrow>
     downsampling_block x F Unrecognized bn dr g = (Inl (ValueError ''padding''), g)"
  by (simp add: downsampling_block_def and_then_def conv2d_def raise_def)

lemma downsampling_block_even:
  assumes "even (t_height x)" "even (t_width x)" "p \<noteq> Unrecognized"
  shows "\<exists>pooled x0 g'. downsampling_block x F p bn dr g = (Inr (pooled, x0), g')
     \<and> t_height x0 = t_height x - (if p = Valid then 6 else 0)
     \<and> t_width x0 = t_width x - (if p = Valid then 6 else 0)
     \<and> t_channels x0 = F
     \<and> t_height pooled = t_height x0 div 2
     \<and> t_width pooled = t_width x0 div 2
     \<and> t_channels pooled = F"
  using assms
  by (cases p; cases bn; cases "0 < dr"; simp add: downsampling_block_def and_then_def layer_defs)

lemma downsampling_block_Inr:
  assumes "downsampling_block x F p bn dr g = (Inr (pooled, x0), g1)"
  shows "even (t_height x) \<and> even (t_width x) \<and> p \<noteq> Unrecognized
     \<and> t_height x0 = t_height x - (if p = Valid then 6 else 0)
     \<and> t_width x0 = t_width x - (if p = Valid then 6 else 0)
     \<and> t_channels x0 = F
     \<and> t_height pooled = t_height x0 div 2
     \<and> t_width pooled = t_width x0 div 2
     \<and> t_channels pooled = F"
proof -
  have eh: "even (t_height x)"
    using assms downsampling_block_odd_height [of x F p bn dr g] by auto
  have ew: "even (t_width x)"
    using assms eh downsampling_block_odd_width [of x F p bn dr g] by auto
  have pr: "p \<noteq> Unrecognized"
    using assms eh ew downsampling_block_padding [of x F bn dr g] by auto
  from downsampling_block_even [OF eh ew pr, of F bn dr g] assms eh ew pr
  show ?thesis by auto
qed

lemma upsampling_block_h_crop:
  "t_height s < 2 * t_height x \<Longrightarrow>
     upsampling_block x s F p bn dr g =
       (Inl (AssertionError ''h_crop >= 0''),
        g @ [\<lparr>layer = Conv2DTranspose F (2, 2) (2, 2) Valid, inbound = [node_id x],
               out_shape = (2 * t_height x, 2 * t_width x, F)\<rparr>])"
  by (simp add: upsampling_block_def and_then_def layer_defs Let_def)

lemma upsampling_block_w_crop:
  "2 * t_height x \<le> t_height s \<Longrightarrow> t_width s < 2 * t_width x \<Longrightarrow>
     upsampling_block x s F p bn dr g =
       (Inl (AssertionError ''w_crop >= 0''),
        g @ [\<lparr>layer = Conv2DTranspose F (2, 2) (2, 2) Valid, inbound = [node_id x],
               out_shape = (2 * t_height x, 2 * t_width x, F)\<rparr>])"
  by (simp add: upsampling_block_def and_then_def layer_defs Let_def)

lemma upsampling_block_fits:
  assumes "2 * t_height x \<le> t_height s" "2 * t_width x \<le> t_width s"
  shows "(p = Unrecognized \<and> (\<exists>g'. upsampling_block x s F p bn dr g = (Inl (ValueError ''padding''), g')))
     \<or> (p \<noteq> Unrecognized \<and> (\<exists>y g'. upsampling_block x s F p bn dr g = (Inr y, g')
          \<and> t_height y = 2 * t_height x - (if p = Valid then 4 else 0)
          \<and> t_width y = 2 * t_width x - (if p = Valid then 4 else 0)
          \<and> t_channels y = F))"
  using assms
  by (cases p; cases bn; cases "0 < dr"; simp add: upsampling_block_def and_then_def layer_defs Let_def)


lemma bottleneck_shape:
  "p \<noteq> Unrecognized \<Longrightarrow>
     \<exists>y g'. bottleneck n x F d p bn dr g = (Inr y, g')
       \<and> t_height y = t_height x - (if p = Valid then 2 * d * (2 ^ n - 1) else 0)
       \<and> t_width y = t_width x - (if p = Valid then 2 * d * (2 ^ n - 1) else 0)
       \<and> t_channels y = (if n = 0 then t_channels x else F)"
proof (induction n arbitrary: x d g)
  case 0
  then show ?case by (simp add: ok_def)
next
  case (Suc n)
  obtain x1 g1 where step:
    "and_then (conv2d F (3, 3) p d x) (\<lambda>x.
       and_then (if bn then batch_normalization x else ok x) (\<lambda>x.
       and_then (activation ''relu'' x) (\<lambda>x.
       (if 0 < dr then dropout_layer dr x else ok x)))) g = (Inr x1, g1)"
    "t_height x1 = t_height x - (if p = Valid then 2 * d else 0)"
    "t_width x1 = t_width x - (if p = Valid then 2 * d else 0)"
    "t_channels x1 = F"
    using Suc.prems
    by (cases p; cases bn; cases "0 < dr"; simp add: and_then_def layer_defs)
  from Suc.IH [OF Suc.prems, of x1 "d * 2" g1] obtain y g' where rest:
    "bottleneck n x1 F (d * 2) p bn dr g1 = (Inr y, g')"
    "t_height y = t_height x1 - (if p = Valid then 2 * (d * 2) * (2 ^ n - 1) else 0)"
    "t_width y = t_width x1 - (if p = Valid then 2 * (d * 2) * (2 ^ n - 1) else 0)"
    "t_channels y = (if n = 0 then t_channels x1 else F)"
    by blast
  have "bottleneck (Suc n) x F d p bn dr =
      and_then (and_then (conv2d F (3, 3) p d x) (\<lambda>x.
         and_then (if bn then batch_normalization x else ok x) (\<lambda>x.
         and_then (activation ''relu'' x) (\<lambda>x.
         (if 0 < dr then dropout_layer dr x else ok x)))))
       (\<lambda>x. bottleneck n x F (d * 2) p bn dr)"
    by (simp add: and_then_assoc)
  then have "bottleneck (Suc n) x F d p bn dr g = (Inr y, g')"
    using step(1) rest(1) by (simp add: and_then_def)
  moreover have "t_height y = t_height x - (if p = Valid then 2 * d * (2 ^ Suc n - 1) else 0)"
    using step(2) rest(2) by (cases "p = Valid") (simp_all add: algebra_simps)
  moreover have "t_width y = t_width x - (if p = Valid then 2 * d * (2 ^ Suc n - 1) else 0)"
    using step(3) rest(3) by (cases "p = Valid") (simp_all add: algebra_simps)
  moreover have "t_channels y = F"
    using step(4) rest(4) by simp
  ultimately show ?case by simp
qed

lemma bottleneck_padding:
  "bottleneck (Suc n) x F d Unrecognized bn dr g = (Inl (ValueError ''padding''), g)"
  by (simp add: and_then_def conv2d_def raise_def)

lemma encoder_result:
  "encoder n x F skips p bn dr g = (Inr (y, skips', F'), g') \<Longrightarrow>
     F' = F * 2 ^ n \<and> length skips' = length skips + n \<and> take (length skips) skips' = skips
     \<and> (\<forall>i<n. t_channels (skips' ! (length skips + i)) = F * 2 ^ i)"
proof (induction n arbitrary: x F skips g)
  case 0
  then show ?case by (simp add: ok_def)
next
  case (Suc n)
  from Suc.prems obtain pooled x0 g1 where
    blk: "downsampling_block x F p bn dr g = (Inr (pooled, x0), g1)" and
    rest: "encoder n pooled (F * 2) (skips @ [x0]) p bn dr g1 = (Inr (y, skips', F'), g')"
    by (auto simp: and_then_Inr)
  from downsampling_block_Inr [OF blk]
  have ch: "t_channels x0 = F" by simp
  from Suc.IH [OF rest] have ih:
    "F' = F * 2 * 2 ^ n" "length skips' = length skips + Suc n"
    "take (Suc (length skips)) skips' = skips @ [x0]"
    "\<forall>i<n. t_channels (skips' ! (Suc (length skips) + i)) = F * 2 * 2 ^ i"
    by simp_all
  have tk: "take (length skips) skips' = skips"
    using ih(3) by (metis append_eq_conv_conj length_take min.absorb2 ih(2) le_add1 take_take)
  have x0: "skips' ! length skips = x0"
    using ih(3) by (metis lessI nth_append_length nth_take)
  have "t_channels (skips' ! (length skips + i)) = F * 2 ^ i" if "i < Suc n" for i
  proof (cases i)
    case 0
    then show ?thesis using x0 ch by simp
  next
    case (Suc j)
    then show ?thesis using ih(4) that by simp
  qed
  then show ?case using ih(1,2) tk by simp
qed





lemma chain_mono:
  "chain ss x \<Longrightarrow> t_height x0 \<le> t_height x \<Longrightarrow> t_width x0 \<le> t_width x \<Longrightarrow> chain ss x0"
  by (cases ss) (auto simp: fits_def)

lemma encoder_chain:
  "chain (rev skips) x \<Longrightarrow> encoder n x F skips p bn dr g = (Inr (y, skips', F'), g') \<Longrightarrow>
     chain (rev skips') y"
proof (induction n arbitrary: x F skips g)
  case 0
  then show ?case by (simp add: ok_def)
next
  case (Suc n)
  from Suc.prems(2) obtain pooled x0 g1 where
    blk: "downsampling_block x F p bn dr g = (Inr (pooled, x0), g1)" and
    rest: "encoder n pooled (F * 2) (skips @ [x0]) p bn dr g1 = (Inr (y, skips', F'), g')"
    by (auto simp: and_then_Inr)
  note sh = downsampling_block_Inr [OF blk]
  have "t_height x0 \<le> t_height x" "t_width x0 \<le> t_width x" using sh by simp_all
  then have "chain (rev skips) x0" using Suc.prems(1) chain_mono by blast
  moreover have "fits pooled x0" using sh by (simp add: fits_def)
  ultimately have "chain (rev (skips @ [x0])) pooled" by simp
  from Suc.IH [OF this rest] show ?case .
qed


lemma encoder_same:
  "encoder n x F skips Same bn dr g = (Inr (y, skips', F'), g') \<Longrightarrow>
     t_height x = 2 ^ n * t_height y \<and> t_width x = 2 ^ n * t_width y
     \<and> (\<forall>i<n. t_height (skips' ! (length skips + i)) = 2 ^ (n - i) * t_height y
             \<and> t_width (skips' ! (length skips + i)) = 2 ^ (n - i) * t_width y)"
proof (induction n arbitrary: x F skips g)
  case 0
  then show ?case by (simp add: ok_def)
next
  case (Suc n)
  from Suc.prems obtain pooled x0 g1 where
    blk: "downsampling_block x F Same bn dr g = (Inr (pooled, x0), g1)" and
    rest: "encoder n pooled (F * 2) (skips @ [x0]) Same bn dr g1 = (Inr (y, skips', F'), g')"
    by (auto simp: and_then_Inr)
  note sh = downsampling_block_Inr [OF blk]
  have x0: "t_height x0 = 2 * t_height pooled" "t_width x0 = 2 * t_width pooled"
    "t_height x = t_height x0" "t_width x = t_width x0"
    using sh by auto
  from encoder_result [OF rest] have "take (Suc (length skips)) skips' = skips @ [x0]"
    by simp
  then have at: "skips' ! length skips = x0"
    by (metis lessI nth_append_length nth_take)
  from Suc.IH [OF rest] have ih:
    "t_height pooled = 2 ^ n * t_height y" "t_width pooled = 2 ^ n * t_width y"
    "\<forall>i<n. t_height (skips' ! (Suc (length skips) + i)) = 2 ^ (n - i) * t_height y
          \<and> t_width (skips' ! (Suc (length skips) + i)) = 2 ^ (n - i) * t_width y"
    by simp_all
  have "t_height (skips' ! (length skips + i)) = 2 ^ (Suc n - i) * t_height y
      \<and> t_width (skips' ! (length skips + i)) = 2 ^ (Suc n - i) * t_width y"
    if "i < Suc n" for i
  proof (cases i)
    case 0
    then show ?thesis using at x0 ih(1,2) by simp
  next
    case (Suc j)
    then show ?thesis using ih(3) that by simp
  qed
  then show ?case using x0 ih(1,2) by simp
qed

lemma rev_upt_Suc: "rev [0..<Suc k] = k # rev [0..<k]"
  by simp

lemma decoder_same:
  assumes "k \<le> length skips"
    "\<forall>i<k. t_height (skips ! i) = 2 ^ (k - i) * t_height x
          \<and> t_width (skips ! i) = 2 ^ (k - i) * t_width x"
  shows "\<exists>y F' g'. decoder (rev [0..<k]) x F skips Same bn dr g = (Inr (y, F'), g')
     \<and> t_height y = 2 ^ k * t_height x \<and> t_width y = 2 ^ k * t_width x"
  using assms
proof (induction k arbitrary: x F g)
  case 0
  then show ?case by (simp add: ok_def)
next
  case (Suc k)
  have k: "k < length skips" "k \<le> length skips" using Suc.prems(1) by simp_all
  have sk: "t_height (skips ! k) = 2 * t_height x" "t_width (skips ! k) = 2 * t_width x"
    using Suc.prems(2) by (simp_all add: Suc_diff_le)
  from upsampling_block_fits [of x "skips ! k" Same "F div 2" bn dr g] sk
  obtain y1 g1 where
    blk: "upsampling_block x (skips ! k) (F div 2) Same bn dr g = (Inr y1, g1)" and
    y1: "t_height y1 = 2 * t_height x" "t_width y1 = 2 * t_width x"
    by auto
  have "\<forall>i<k. t_height (skips ! i) = 2 ^ (k - i) * t_height y1
          \<and> t_width (skips ! i) = 2 ^ (k - i) * t_width y1"
    using Suc.prems(2) y1 by (simp add: Suc_diff_le)
  from Suc.IH [OF k(2) this, of "F div 2" g1]
  obtain y F' g' where
    "decoder (rev [0..<k]) y1 (F div 2) skips Same bn dr g1 = (Inr (y, F'), g')"
    "t_height y = 2 ^ k * t_height y1" "t_width y = 2 ^ k * t_width y1"
    by blast
  then show ?case
    using blk k(1) y1 by (simp add: and_then_def)
qed

lemma decoder_chain:
  assumes "k \<le> length skips" "chain (rev (take k skips)) x"
  shows "(\<exists>y F' g'. decoder (rev [0..<k]) x F skips p bn dr g = (Inr (y, F'), g')
            \<and> (k = 0 \<and> y = x
                \<or> 0 < k \<and> p \<noteq> Unrecognized
                  \<and> t_height y \<le> t_height (skips ! 0) - (if p = Valid then 4 else 0)
                  \<and> t_width y \<le> t_width (skips ! 0) - (if p = Valid then 4 else 0)))
     \<or> (\<exists>g'. 0 < k \<and> p = Unrecognized
            \<and> decoder (rev [0..<k]) x F skips p bn dr g = (Inl (ValueError ''padding''), g'))"
  using assms
proof (induction k arbitrary: x F g)
  case 0
  then show ?case by (simp add: ok_def)
next
  case (Suc k)
  have k: "k < length skips" "k \<le> length skips" using Suc.prems(1) by simp_all
  have ch: "fits x (skips ! k)" "chain (rev (take k skips)) (skips ! k)"
    using Suc.prems(2) k(1) by (simp_all add: take_Suc_conv_app_nth)
  show ?case
  proof (cases "p = Unrecognized")
    case True
    with upsampling_block_fits [of x "skips ! k" p "F div 2" bn dr g] ch(1)
    show ?thesis using k(1) by (auto simp: fits_def and_then_def)
  next
    case False
    with upsampling_block_fits [of x "skips ! k" p "F div 2" bn dr g] ch(1)
    obtain y1 g1 where
      blk: "upsampling_block x (skips ! k) (F div 2) p bn dr g = (Inr y1, g1)" and
      y1: "t_height y1 = 2 * t_height x - (if p = Valid then 4 else 0)"
        "t_width y1 = 2 * t_width x - (if p = Valid then 4 else 0)"
      by (auto simp: fits_def)
    have le: "t_height y1 \<le> t_height (skips ! k) - (if p = Valid then 4 else 0)"
      "t_width y1 \<le> t_width (skips ! k) - (if p = Valid then 4 else 0)"
      using y1 ch(1) by (simp_all add: fits_def)
    then have "chain (rev (take k skips)) y1"
      using ch(2) chain_mono [of "rev (take k skips)" "skips ! k" y1] by (simp split: if_splits)
    from Suc.IH [OF k(2) this, of "F div 2" g1] False
    obtain y F' g' where
      rest: "decoder (rev [0..<k]) y1 (F div 2) skips p bn dr g1 = (Inr (y, F'), g')" and
      sh: "k = 0 \<and> y = y1
          \<or> 0 < k \<and> t_height y \<le> t_height (skips ! 0) - (if p = Valid then 4 else 0)
                 \<and> t_width y \<le> t_width (skips ! 0) - (if p = Valid then 4 else 0)"
      by blast
    have "decoder (rev [0..<Suc k]) x F skips p bn dr g = (Inr (y, F'), g')"
      using blk rest k(1) by (simp add: and_then_def)
    moreover have "t_height y \<le> t_height (skips ! 0) - (if p = Valid then 4 else 0)
        \<and> t_width y \<le> t_width (skips ! 0) - (if p = Valid then 4 else 0)"
      using sh le by auto
    ultimately show ?thesis using False by simp
  qed
qed


lemma dilated_unet_Inr:
  assumes "fst (dilated_unet h w c k F depth t p bn dr L) = Inr out"
  obtains x skips F' g1 x2 g2 x3 F3 g3 where
    "encoder (nat depth) \<lparr>node_id = 0, t_height = h, t_width = w, t_channels = c\<rparr> F [] p bn dr
       [\<lparr>layer = Input, inbound = [], out_shape = (h, w, c)\<rparr>] = (Inr (x, skips, F'), g1)"
    "bottleneck (nat L) x F' 1 p bn dr g1 = (Inr x2, g2)"
    "decoder (rev [0..<nat depth]) x2 F' skips p bn dr g2 = (Inr (x3, F3), g3)"
    "t_height out = t_height x3" "t_width out = t_width x3" "t_channels out = k"
  using assms
  by (auto simp: dilated_unet_def and_then_def layer_defs split: prod.splits sum.splits)

lemma dilated_unet_Inl:
  assumes "fst (dilated_unet h w c k F depth t p bn dr L) = Inl e"
  shows "(\<exists>g1. encoder (nat depth) \<lparr>node_id = 0, t_height = h, t_width = w, t_channels = c\<rparr> F [] p bn dr
       [\<lparr>layer = Input, inbound = [], out_shape = (h, w, c)\<rparr>] = (Inl e, g1))
    \<or> (\<exists>x skips F' g1 g2. encoder (nat depth) \<lparr>node_id = 0, t_height = h, t_width = w, t_channels = c\<rparr> F [] p bn dr
       [\<lparr>layer = Input, inbound = [], out_shape = (h, w, c)\<rparr>] = (Inr (x, skips, F'), g1)
       \<and> bottleneck (nat L) x F' 1 p bn dr g1 = (Inl e, g2))
    \<or> (\<exists>x skips F' g1 x2 g2 g3. encoder (nat depth) \<lparr>node_id = 0, t_height = h, t_width = w, t_channels = c\<rparr> F [] p bn dr
       [\<lparr>layer = Input, inbound = [], out_shape = (h, w, c)\<rparr>] = (Inr (x, skips, F'), g1)
       \<and> bottleneck (nat L) x F' 1 p bn dr g1 = (Inr x2, g2)
       \<and> decoder (rev [0..<nat depth]) x2 F' skips p bn dr g2 = (Inl e, g3))"
  using assms
  by (auto simp: dilated_unet_def and_then_def layer_defs split: prod.splits sum.splits)

lemma dilated_unet_encoder_Inl:
  assumes "encoder (nat depth) \<lparr>node_id = 0, t_height = h, t_width = w, t_channels = c\<rparr> F [] p bn dr
       [\<lparr>layer = Input, inbound = [], out_shape = (h, w, c)\<rparr>] = (Inl e, g1)"
  shows "dilated_unet h w c k F depth t p bn dr L = (Inl e, g1)"
  using assms
  by (simp add: dilated_unet_def and_then_def layer_defs)




lemma grows_ok: "grows (ok v)"
  by (simp add: grows_def ok_def)

lemma grows_raise: "grows (raise e)"
  by (simp add: grows_def raise_def)

lemma grows_add_layer: "grows (add_layer l ins shp)"
  by (simp add: grows_def add_layer_def)

lemma grows_and_then:
  assumes "grows m" "\<And>v. grows (f v)"
  shows "grows (and_then m f)"
proof (unfold grows_def, rule allI)
  fix g
  from assms(1) obtain g1 where g1: "snd (m g) = g @ g1" by (auto simp: grows_def)
  show "\<exists>g'. snd (and_then m f g) = g @ g'"
  proof (cases "m g")
    case (Pair r g2)
    with g1 have g2: "g2 = g @ g1" by simp
    show ?thesis
    proof (cases r)
      case (Inl e)
      then show ?thesis using Pair g2 by (simp add: and_then_def)
    next
      case (Inr v)
      from assms(2) [of v] obtain g3 where "snd (f v g2) = g2 @ g3" by (auto simp: grows_def)
      then show ?thesis using Pair Inr g2 by (simp add: and_then_def)
    qed
  qed
qed

lemma grows_if: "grows a \<Longrightarrow> grows b \<Longrightarrow> grows (if c then a else b)"
  by simp

lemma grows_layers:
  "grows (conv2d filters ks p d x)" "grows (batch_normalization x)" "grows (activation name x)"
  "grows (dropout_layer r x)" "grows (max_pooling2d ps x)" "grows (cropping2d cr x)"
  "grows (concatenate x y)" "grows (lambda_divide t x)" "grows (conv2d_transpose filters ks st x)"
  "grows (input_layer shp)"
  by (simp_all add: conv2d_def batch_normalization_def activation_def dropout_layer_def
      max_pooling2d_def cropping2d_def concatenate_def lambda_divide_def conv2d_transpose_def
      input_layer_def grows_raise grows_add_layer)

lemmas grows_intros = grows_and_then grows_if grows_ok grows_raise grows_layers

lemma nth_grows:
  assumes "grows m" "i < length g"
  shows "snd (m g) ! i = g ! i"
proof -
  from assms(1) obtain g' where "snd (m g) = g @ g'" by (auto simp: grows_def)
  then show ?thesis using assms(2) by (simp add: nth_append)
qed

lemma and_then_step: "m g = (Inr v, g1) \<Longrightarrow> and_then m f g = f v g1"
  by (simp add: and_then_def)

lemma conv2d_transpose_node:
  "conv2d_transpose filters (2, 2) (2, 2) x g =
     (Inr \<lparr>node_id = length g, t_height = 2 * t_height x, t_width = 2 * t_width x,
           t_channels = filters\<rparr>,
      g @ [\<lparr>layer = Conv2DTranspose filters (2, 2) (2, 2) Valid, inbound = [node_id x],
             out_shape = (2 * t_height x, 2 * t_width x, filters)\<rparr>])"
  by (simp add: conv2d_transpose_def deconv_length_def add_layer_def)

lemma upsampling_tail_grows:
  "grows (and_then (conv2d filters (3, 3) p 1 x) (\<lambda>x.
       and_then (if batchnorm then batch_normalization x else ok x) (\<lambda>x.
       and_then (activation ''relu'' x) (\<lambda>x.
       and_then (if dropout > 0 then dropout_layer dropout x else ok x) (\<lambda>x.
       and_then (conv2d filters (3, 3) p 1 x) (\<lambda>x.
       and_then (if batchnorm then batch_normalization x else ok x) (\<lambda>x.
       and_then (activation ''relu'' x) (\<lambda>x.
       (if dropout > 0 then dropout_layer dropout x else ok x)))))))))"
  by (intro grows_intros)


lemma upsampling_block_transpose_node:
  "snd (upsampling_block input_tensor skip_tensor filters p batchnorm dropout g) ! length g =
     \<lparr>layer = Conv2DTranspose filters (2, 2) (2, 2) Valid, inbound = [node_id input_tensor],
      out_shape = (2 * t_height input_tensor, 2 * t_width input_tensor, filters)\<rparr>"
  apply (simp only: upsampling_block_def and_then_step [OF conv2d_transpose_node] Let_def)
  apply (rule trans [OF nth_grows [where i = "length g" and g = "g @ [n]" for n]])
    apply (intro grows_intros)
   apply simp
  apply simp
  done


lemma and_then_ok: "and_then (ok v) f g = f v g"
  by (simp add: and_then_def ok_def)

lemma and_then_add_layer:
  "and_then (add_layer l ins shp) f g =
     f \<lparr>node_id = length g, t_height = fst shp, t_width = fst (snd shp),
         t_channels = snd (snd shp)\<rparr>
       (g @ [\<lparr>layer = l, inbound = map node_id ins, out_shape = shp\<rparr>])"
  by (simp add: and_then_def add_layer_def)

lemma upsampling_block_nodes:
  assumes "h_crop = t_height skip - 2 * t_height x" "w_crop = t_width skip - 2 * t_width x"
    "0 \<le> h_crop" "0 \<le> w_crop"
  shows "\<exists>g'. snd (upsampling_block x skip filters p bn dr g) =
     g @ [\<lparr>layer = Conv2DTranspose filters (2, 2) (2, 2) Valid, inbound = [node_id x],
             out_shape = (2 * t_height x, 2 * t_width x, filters)\<rparr>]
       @ (if h_crop = 0 \<and> w_crop = 0
          then [\<lparr>layer = Concatenate, inbound = [length g, node_id skip],
                  out_shape = (2 * t_height x, 2 * t_width x, filters + t_channels skip)\<rparr>]
          else [\<lparr>layer = Cropping2D ((h_crop div 2, h_crop - h_crop div 2),
                                       (w_crop div 2, w_crop - w_crop div 2)),
                  inbound = [node_id skip],
                  out_shape = (2 * t_height x, 2 * t_width x, t_channels skip)\<rparr>,
                \<lparr>layer = Concatenate, inbound = [length g, length g + 1],
                  out_shape = (2 * t_height x, 2 * t_width x, filters + t_channels skip)\<rparr>])
       @ g'"
proof -
  let ?tail = "\<lambda>c. and_then (conv2d filters (3, 3) p 1 c) (\<lambda>x.
       and_then (if bn then batch_normalization x else ok x) (\<lambda>x.
       and_then (activation ''relu'' x) (\<lambda>x.
       and_then (if dr > 0 then dropout_layer dr x else ok x) (\<lambda>x.
       and_then (conv2d filters (3, 3) p 1 x) (\<lambda>x.
       and_then (if bn then batch_normalization x else ok x) (\<lambda>x.
       and_then (activation ''relu'' x) (\<lambda>x.
       (if dr > 0 then dropout_layer dr x else ok x))))))))"
  let ?T = "\<lparr>layer = Conv2DTranspose filters (2, 2) (2, 2) Valid, inbound = [node_id x],
             out_shape = (2 * t_height x, 2 * t_width x, filters)\<rparr>"
  have tail: "\<exists>g'. snd (?tail c G) = G @ g'" for c G
    using upsampling_tail_grows [of filters p c bn dr] by (simp add: grows_def)
  show ?thesis
  proof (cases "h_crop = 0 \<and> w_crop = 0")
    case True
    then have eq: "t_height skip = 2 * t_height x" "t_width skip = 2 * t_width x"
      using assms(1,2) by simp_all
    let ?Cat = "\<lparr>layer = Concatenate, inbound = [length g, node_id skip],
                  out_shape = (2 * t_height x, 2 * t_width x, filters + t_channels skip)\<rparr>"
    have step: "upsampling_block x skip filters p bn dr g =
        ?tail \<lparr>node_id = Suc (length g), t_height = 2 * t_height x, t_width = 2 * t_width x,
                t_channels = filters + t_channels skip\<rparr> (g @ [?T, ?Cat])"
      by (simp add: upsampling_block_def and_then_step [OF conv2d_transpose_node] Let_def eq
          and_then_ok concatenate_def and_then_add_layer)
    from tail obtain g' where
      "snd (upsampling_block x skip filters p bn dr g) = (g @ [?T, ?Cat]) @ g'"
      unfolding step by blast
    then show ?thesis using True by simp
  next
    case False
    have sh: "t_height skip - h_crop div 2 - (h_crop - h_crop div 2) = 2 * t_height x"
      "t_width skip - w_crop div 2 - (w_crop - w_crop div 2) = 2 * t_width x"
      using assms(1,2) by simp_all
    have nn: "0 \<le> t_height skip - 2 * t_height x" "0 \<le> t_width skip - 2 * t_width x"
      using assms by simp_all
    let ?Crop = "\<lparr>layer = Cropping2D ((h_crop div 2, h_crop - h_crop div 2),
                                       (w_crop div 2, w_crop - w_crop div 2)),
                  inbound = [node_id skip],
                  out_shape = (2 * t_height x, 2 * t_width x, t_channels skip)\<rparr>"
    let ?Cat = "\<lparr>layer = Concatenate, inbound = [length g, length g + 1],
                  out_shape = (2 * t_height x, 2 * t_width x, filters + t_channels skip)\<rparr>"
    have step: "upsampling_block x skip filters p bn dr g =
        ?tail \<lparr>node_id = Suc (Suc (length g)), t_height = 2 * t_height x,
                t_width = 2 * t_width x, t_channels = filters + t_channels skip\<rparr>
          (g @ [?T, ?Crop, ?Cat])"
      using sh nn
      by (simp add: upsampling_block_def and_then_step [OF conv2d_transpose_node] Let_def
          assms(1,2) [symmetric] if_not_P [OF False] cropping2d_def concatenate_def
          and_then_add_layer)
    from tail obtain g' where
      "snd (upsampling_block x skip filters p bn dr g) = (g @ [?T, ?Crop, ?Cat]) @ g'"
      unfolding step by blast
    then show ?thesis using False by simp
  qed
qed



section \<open>Outcomes of the loops and of the whole build\<close>


lemma downsampling_block_Inl:
  assumes "downsampling_block x F p bn dr g = (Inl e, g')"
  shows "e = AssertionError ''height % 2 == 0'' \<or> e = AssertionError ''width % 2 == 0''
     \<or> e = ValueError ''padding''"
proof -
  consider (oh) "odd (t_height x)" | (ow) "even (t_height x)" "odd (t_width x)"
    | (pad) "even (t_height x)" "even (t_width x)" "p = Unrecognized"
    | (ev) "even (t_height x)" "even (t_width x)" "p \<noteq> Unrecognized" by blast
  then show ?thesis
  proof cases
    case oh
    then show ?thesis using assms by (simp add: downsampling_block_odd_height)
  next
    case ow
    then show ?thesis using assms by (simp add: downsampling_block_odd_width)
  next
    case pad
    then show ?thesis using assms by (simp add: downsampling_block_padding)
  next
    case ev
    from downsampling_block_even [OF ev, of F bn dr g] assms show ?thesis by auto
  qed
qed

lemma encoder_Inl:
  "encoder n x F skips p bn dr g = (Inl e, g') \<Longrightarrow>
     e = AssertionError ''height % 2 == 0'' \<or> e = AssertionError ''width % 2 == 0''
     \<or> e = ValueError ''padding''"
proof (induction n arbitrary: x F skips g)
  case 0
  then show ?case by (simp add: ok_def)
next
  case (Suc n)
  from Suc.prems consider
    (blk) "downsampling_block x F p bn dr g = (Inl e, g')"
    | (rest) pooled x0 g1 where
      "encoder n pooled (F * 2) (skips @ [x0]) p bn dr g1 = (Inl e, g')"
    by (auto simp: and_then_Inl)
  then show ?case
  proof cases
    case blk
    then show ?thesis by (rule downsampling_block_Inl)
  next
    case rest
    then show ?thesis by (rule Suc.IH)
  qed
qed

lemma bottleneck_Inl:
  assumes "bottleneck n x F d p bn dr g = (Inl e, g')"
  shows "e = ValueError ''padding''"
proof (cases "p = Unrecognized")
  case True
  then show ?thesis using assms
    by (cases n) (simp_all add: ok_def bottleneck_padding del: bottleneck.simps(2))
next
  case False
  from bottleneck_shape [OF False, of n x F d bn dr g] assms show ?thesis by auto
qed

lemma dilated_unet_no_crop_error:
  assumes "fst (dilated_unet h w c k F depth t p bn dr L) = Inl e"
  shows "e = AssertionError ''height % 2 == 0'' \<or> e = AssertionError ''width % 2 == 0''
     \<or> e = ValueError ''padding''"
proof -
  let ?x = "\<lparr>node_id = 0, t_height = h, t_width = w, t_channels = c\<rparr>"
  let ?g = "[\<lparr>layer = Input, inbound = [], out_shape = (h, w, c)\<rparr>]"
  from dilated_unet_Inl [OF assms] consider
    (enc) g1 where "encoder (nat depth) ?x F [] p bn dr ?g = (Inl e, g1)"
    | (bot) x F' g1 g2 where "bottleneck (nat L) x F' 1 p bn dr g1 = (Inl e, g2)"
    | (dec) x skips F' g1 x2 g2 g3 where
      "encoder (nat depth) ?x F [] p bn dr ?g = (Inr (x, skips, F'), g1)"
      "bottleneck (nat L) x F' 1 p bn dr g1 = (Inr x2, g2)"
      "decoder (rev [0..<nat depth]) x2 F' skips p bn dr g2 = (Inl e, g3)"
    by blast
  then show ?thesis
  proof cases
    case enc
    then show ?thesis by (rule encoder_Inl)
  next
    case bot
    then show ?thesis by (simp add: bottleneck_Inl)
  next
    case dec
    have len: "length skips = nat depth" using encoder_result [OF dec(1)] by simp
    have ch: "chain (rev skips) x" using encoder_chain [OF _ dec(1)] by simp
    have pr: "p \<noteq> Unrecognized \<or> nat L = 0"
      using dec(2) by (cases "nat L") (auto simp: bottleneck_padding simp del: bottleneck.simps(2))
    have "t_height x2 \<le> t_height x \<and> t_width x2 \<le> t_width x"
    proof (cases "p = Unrecognized")
      case True
      with pr dec(2) show ?thesis by (simp add: ok_def)
    next
      case False
      from bottleneck_shape [OF False, of "nat L" x F' 1 bn dr g1] dec(2)
      show ?thesis by auto
    qed
    then have "chain (rev (take (nat depth) skips)) x2"
      using ch len chain_mono by auto
    from decoder_chain [OF _ this, of F' p bn dr g2] len dec(3)
    show ?thesis by auto
  qed
qed


lemma and_then_ok_left: "and_then (ok v) f = f v"
  by (rule ext) (simp add: and_then_def ok_def)

lemma and_then_raise: "and_then (raise e) f = raise e"
  by (rule ext) (simp add: and_then_def raise_def)

lemma and_then_if:
  "and_then (if c then a else b) f = (if c then and_then a f else and_then b f)"
  by simp

lemma encoder_eq_by_stage:
  "encoder n x (f0 * 2 ^ i) skips p bn dr =
     and_then (encoder_by_stage [i..<i + n] x f0 skips p bn dr)
       (\<lambda>(x, skips). ok (x, skips, f0 * 2 ^ (i + n)))"
proof (induction n arbitrary: i x skips)
  case 0
  then show ?case by (simp add: and_then_ok_left)
next
  case (Suc n)
  have up: "[i..<i + Suc n] = i # [Suc i..<Suc i + n]"
    by (simp add: upt_conv_Cons)
  have f: "f0 * 2 ^ i * 2 = f0 * 2 ^ Suc i" by simp
  show ?case
    by (simp only: up encoder.simps encoder_by_stage.simps f Suc.IH and_then_assoc)
       (simp add: case_prod_unfold)
qed

lemma decoder_eq_by_stage:
  "decoder (rev [0..<k]) x (f0 * 2 ^ k) skips p bn dr =
     and_then (decoder_by_stage (rev [0..<k]) x f0 skips p bn dr) (\<lambda>x. ok (x, f0))"
proof (induction k arbitrary: x)
  case 0
  then show ?case by (simp add: and_then_ok_left)
next
  case (Suc k)
  have f: "f0 * 2 ^ Suc k div 2 = f0 * 2 ^ k" by simp
  show ?case
    by (simp only: rev_upt_Suc decoder.simps decoder_by_stage.simps f Suc.IH and_then_assoc
        and_then_if and_then_raise)
qed

lemma dilated_unet_eq_by_stage:
  "dilated_unet h w c k f0 depth t p bn dr L = dilated_unet_by_stage h w c k f0 depth t p bn dr L"
proof -
  have e: "encoder (nat depth) x f0 [] p bn dr =
     and_then (encoder_by_stage [0..<nat depth] x f0 [] p bn dr)
       (\<lambda>(x, skips). ok (x, skips, f0 * 2 ^ nat depth))" for x
    using encoder_eq_by_stage [of "nat depth" x f0 0 "[]" p bn dr] by simp
  show ?thesis
    unfolding dilated_unet_def dilated_unet_by_stage_def e
    by (simp add: and_then_assoc case_prod_unfold and_then_ok_left decoder_eq_by_stage)
qed


lemma dilated_unet_same_shape:
  assumes "fst (dilated_unet h w c k F depth t Same bn dr L) = Inr out"
  shows "t_height out = h \<and> t_width out = w"
proof -
  let ?x = "\<lparr>node_id = 0, t_height = h, t_width = w, t_channels = c\<rparr>"
  from assms obtain x skips F' g1 x2 g2 x3 F3 g3 where
    enc: "encoder (nat depth) ?x F [] Same bn dr
       [\<lparr>layer = Input, inbound = [], out_shape = (h, w, c)\<rparr>] = (Inr (x, skips, F'), g1)" and
    bot: "bottleneck (nat L) x F' 1 Same bn dr g1 = (Inr x2, g2)" and
    dec: "decoder (rev [0..<nat depth]) x2 F' skips Same bn dr g2 = (Inr (x3, F3), g3)" and
    out: "t_height out = t_height x3" "t_width out = t_width x3"
    by (auto elim: dilated_unet_Inr)
  have len: "length skips = nat depth" using encoder_result [OF enc] by simp
  from encoder_same [OF enc] have es:
    "h = 2 ^ nat depth * t_height x" "w = 2 ^ nat depth * t_width x"
    "\<forall>i<nat depth. t_height (skips ! i) = 2 ^ (nat depth - i) * t_height x
         \<and> t_width (skips ! i) = 2 ^ (nat depth - i) * t_width x"
    by simp_all
  from bottleneck_shape [of Same "nat L" x F' 1 bn dr g1] bot
  have x2: "t_height x2 = t_height x" "t_width x2 = t_width x" by auto
  from decoder_same [of "nat depth" skips x2 F' bn dr g2] len es(3) x2 dec
  have "t_height x3 = 2 ^ nat depth * t_height x2" "t_width x3 = 2 ^ nat depth * t_width x2"
    by auto
  then show ?thesis using out x2 es(1,2) by simp
qed

lemmas eval_defs = dilated_unet_def and_then_def layer_defs downsampling_block_def
  upsampling_block_def eval_nat_numeral upt_rec

lemma scenario_256:
  "fst (dilated_unet 256 256 1 5 64 3 t Same False 0 5) =
     Inr \<lparr>node_id = 46, t_height = 256, t_width = 256, t_channels = 5\<rparr>"
  by (simp add: eval_defs)

lemma encoder_first_skip:
  assumes "encoder (Suc n) x F [] p bn dr g = (Inr (y, skips, F'), g')"
  shows "t_height (skips ! 0) = t_height x - (if p = Valid then 6 else 0)
     \<and> t_width (skips ! 0) = t_width x - (if p = Valid then 6 else 0)"
proof -
  from assms obtain pooled x0 g1 where
    blk: "downsampling_block x F p bn dr g = (Inr (pooled, x0), g1)" and
    rest: "encoder n pooled (F * 2) ([] @ [x0]) p bn dr g1 = (Inr (y, skips, F'), g')"
    by (auto simp: and_then_Inr)
  from encoder_result [OF rest] have "take 1 skips = [x0]" by simp
  then have "skips ! 0 = x0" by (metis nth_Cons_0 nth_take zero_less_one)
  then show ?thesis using downsampling_block_Inr [OF blk] by simp
qed

lemma dilated_unet_valid_shrinks:
  assumes "fst (dilated_unet h w c k F depth t Valid bn dr L) = Inr out"
    and "1 \<le> depth \<or> 1 \<le> L"
  shows "t_height out < h \<and> t_width out < w"
proof -
  let ?x = "\<lparr>node_id = 0, t_height = h, t_width = w, t_channels = c\<rparr>"
  let ?g = "[\<lparr>layer = Input, inbound = [], out_shape = (h, w, c)\<rparr>]"
  from assms(1) obtain x skips F' g1 x2 g2 x3 F3 g3 where
    enc: "encoder (nat depth) ?x F [] Valid bn dr ?g = (Inr (x, skips, F'), g1)" and
    bot: "bottleneck (nat L) x F' 1 Valid bn dr g1 = (Inr x2, g2)" and
    dec: "decoder (rev [0..<nat depth]) x2 F' skips Valid bn dr g2 = (Inr (x3, F3), g3)" and
    out: "t_height out = t_height x3" "t_width out = t_width x3"
    by (auto elim: dilated_unet_Inr)
  from bottleneck_shape [of Valid "nat L" x F' 1 bn dr g1] bot
  have x2: "t_height x2 = t_height x - 2 * (2 ^ nat L - 1)"
    "t_width x2 = t_width x - 2 * (2 ^ nat L - 1)" by auto
  have pow: "(1::int) \<le> 2 ^ nat L" by simp
  show ?thesis
  proof (cases "nat depth")
    case 0
    then have L: "1 \<le> L" using assms(2) by simp
    then obtain l where "nat L = Suc l" by (cases "nat L") auto
    then have "(2::int) \<le> 2 ^ nat L" by simp
    moreover have "x = ?x" "x3 = x2" using enc dec 0 by (simp_all add: ok_def)
    ultimately show ?thesis using x2 out by simp
  next
    case (Suc n)
    have len: "length skips = nat depth" using encoder_result [OF enc] by simp
    have ch: "chain (rev skips) x" using encoder_chain [OF _ enc] by simp
    have "t_height x2 \<le> t_height x" "t_width x2 \<le> t_width x" using x2 pow by simp_all
    then have "chain (rev (take (nat depth) skips)) x2"
      using ch len chain_mono by auto
    from decoder_chain [OF _ this, of F' Valid bn dr g2] len dec Suc
    have "t_height x3 \<le> t_height (skips ! 0) - 4" "t_width x3 \<le> t_width (skips ! 0) - 4"
      by auto
    moreover from encoder_first_skip [of n ?x F Valid bn dr ?g x skips F' g1] enc Suc
    have "t_height (skips ! 0) = h - 6" "t_width (skips ! 0) = w - 6" by simp_all
    ultimately show ?thesis using out by simp
  qed
qed

lemma scenario_284:
  "fst (dilated_unet 284 284 3 2 64 4 1 Valid False 0 5) =
     Inl (AssertionError ''height % 2 == 0'')
   \<and> out_shape (last (snd (dilated_unet 284 284 3 2 64 4 1 Valid False 0 5))) = (139, 139, 64)"
  by (simp add: eval_defs)

lemma downsampling_block_dropout:
  assumes "dr \<le> 0"
  shows "downsampling_block x F p bn dr = downsampling_block x F p bn 0"
proof -
  have "(0 < dr) = False" using assms by simp
  then show ?thesis by (simp add: downsampling_block_def cong: if_cong)
qed

lemma upsampling_block_dropout:
  assumes "dr \<le> 0"
  shows "upsampling_block x s F p bn dr = upsampling_block x s F p bn 0"
proof -
  have "(0 < dr) = False" using assms by simp
  then show ?thesis by (simp add: upsampling_block_def Let_def cong: if_cong)
qed

lemma encoder_dropout:
  assumes "dr \<le> 0"
  shows "encoder n x F skips p bn dr = encoder n x F skips p bn 0"
  by (induction n arbitrary: x F skips) (simp_all add: downsampling_block_dropout [OF assms])

lemma bottleneck_dropout:
  assumes "dr \<le> 0"
  shows "bottleneck n x F d p bn dr = bottleneck n x F d p bn 0"
proof -
  have "(0 < dr) = False" using assms by simp
  then show ?thesis by (induction n arbitrary: x d) simp_all
qed

lemma decoder_dropout:
  assumes "dr \<le> 0"
  shows "decoder is x F skips p bn dr = decoder is x F skips p bn 0"
  by (induction "is" arbitrary: x F) (simp_all add: upsampling_block_dropout [OF assms])

lemma dilated_unet_padding:
  assumes "(1 \<le> depth \<and> even h \<and> even w) \<or> (depth \<le> 0 \<and> 1 \<le> L)"
  shows "dilated_unet h w c k F depth t Unrecognized bn dr L =
     (Inl (ValueError ''padding''), [\<lparr>layer = Input, inbound = [], out_shape = (h, w, c)\<rparr>])"
proof (cases "1 \<le> depth")
  case True
  then obtain n where n: "nat depth = Suc n" by (cases "nat depth") auto
  from True assms have "even h" "even w" by auto
  then have "encoder (nat depth) \<lparr>node_id = 0, t_height = h, t_width = w, t_channels = c\<rparr> F []
      Unrecognized bn dr [\<lparr>layer = Input, inbound = [], out_shape = (h, w, c)\<rparr>] =
    (Inl (ValueError ''padding''), [\<lparr>layer = Input, inbound = [], out_shape = (h, w, c)\<rparr>])"
    by (simp add: n and_then_def downsampling_block_padding)
  then show ?thesis by (rule dilated_unet_encoder_Inl)
next
  case False
  with assms have d: "nat depth = 0" and "1 \<le> L" by auto
  then obtain l where l: "nat L = Suc l" by (cases "nat L") auto
  show ?thesis
    by (simp add: dilated_unet_def d l input_layer_def and_then_add_layer ok_def
        and_then_def [of "ok v" for v] and_then_def [of "bottleneck a b c d e f g" for a b c d e f g]
        bottleneck_padding del: bottleneck.simps(2))
qed

section \<open>The claims\<close>




text \<open>
  C2. Whenever dilated_unet builds successfully, the output tensor has \<open>classes\<close>
  channels, and with padding "same" its height and width are those of the input; in
  particular height 256, width 256, channels 1, classes 5, padding "same", depth 3 (the
  other arguments at their defaults) gives the output shape (256, 256, 5).
\<close>

theorem C2_output_shape:
  "(fst (dilated_unet height width channels classes features depth temperature p batchnorm
          dropout dilation_layers) = Inr out \<longrightarrow>
      t_channels out = classes \<and> (p = Same \<longrightarrow> t_height out = height \<and> t_width out = width))
   \<and> fst (dilated_unet 256 256 1 5 64 3 1 Same False 0 5) =
       Inr \<lparr>node_id = 46, t_height = 256, t_width = 256, t_channels = 5\<rparr>"
proof -
  have "t_channels out = classes \<and> (p = Same \<longrightarrow> t_height out = height \<and> t_width out = width)"
    if built: "fst (dilated_unet height width channels classes features depth temperature p
      batchnorm dropout dilation_layers) = Inr out"
  proof -
    from built have "t_channels out = classes" by (auto elim: dilated_unet_Inr)
    moreover have "t_height out = height \<and> t_width out = width" if "p = Same"
      using built that dilated_unet_same_shape by blast
    ultimately show ?thesis by blast
  qed
  moreover have "fst (dilated_unet 256 256 1 5 64 3 1 Same False 0 5) =
       Inr \<lparr>node_id = 46, t_height = 256, t_width = 256, t_channels = 5\<rparr>"
    by (rule scenario_256)
  ultimately show ?thesis by blast
qed

text \<open>C2 at the 256 x 256 scenario.\<close>

theorem C2_output_shape_witness:
  "fst (dilated_unet 256 256 1 5 64 3 1 Same False 0 5) =
       Inr \<lparr>node_id = 46, t_height = 256, t_width = 256, t_channels = 5\<rparr>
   \<and> t_channels \<lparr>node_id = 46, t_height = 256, t_width = 256, t_channels = 5\<rparr> = 5
   \<and> t_height \<lparr>node_id = 46, t_height = 256, t_width = 256, t_channels = 5\<rparr> = 256
   \<and> t_width \<lparr>node_id = 46, t_height = 256, t_width = 256, t_channels = 5\<rparr> = 256"
  using C2_output_shape [of 256 256 1 5 64 3 1 Same False 0 5
      "\<lparr>node_id = 46, t_height = 256, t_width = 256, t_channels = 5\<rparr>"]
  by simp

text \<open>
  C3. In an upsampling stage let (uh, uw, uc) be the shape of the upsampled tensor,
  h_crop = skip height - uh and w_crop = skip width - uw, both non-negative. If both are
  zero, the node after the transposed convolution is the concatenation of the upsampled
  tensor with the skip tensor itself. Otherwise it is a cropping of the skip tensor that
  removes floor(h_crop/2) rows at the top and h_crop - floor(h_crop/2) at the bottom
  (likewise for the columns), its output has exactly the upsampled tensor's height and
  width, and the concatenation that follows takes the upsampled and the cropped tensor.
\<close>

theorem C3_center_crop:
  assumes "out_shape (snd (upsampling_block x skip filters p bn dr g) ! length g) = (uh, uw, uc)"
    and "h_crop = t_height skip - uh" and "w_crop = t_width skip - uw"
    and "0 \<le> h_crop" and "0 \<le> w_crop"
  shows "(if h_crop = 0 \<and> w_crop = 0
          then snd (upsampling_block x skip filters p bn dr g) ! (length g + 1) =
                 \<lparr>layer = Concatenate, inbound = [length g, node_id skip],
                  out_shape = (uh, uw, uc + t_channels skip)\<rparr>
          else snd (upsampling_block x skip filters p bn dr g) ! (length g + 1) =
                 \<lparr>layer = Cropping2D ((h_crop div 2, h_crop - h_crop div 2),
                                      (w_crop div 2, w_crop - w_crop div 2)),
                  inbound = [node_id skip],
                  out_shape = (uh, uw, t_channels skip)\<rparr>
             \<and> snd (upsampling_block x skip filters p bn dr g) ! (length g + 2) =
                 \<lparr>layer = Concatenate, inbound = [length g, length g + 1],
                  out_shape = (uh, uw, uc + t_channels skip)\<rparr>)"
proof -
  have u: "uh = 2 * t_height x" "uw = 2 * t_width x" "uc = filters"
    using assms(1) upsampling_block_transpose_node [of x skip filters p bn dr g] by simp_all
  from upsampling_block_nodes [of h_crop skip x w_crop filters p bn dr g] assms(2-5) u
  obtain g' where "snd (upsampling_block x skip filters p bn dr g) =
     g @ [\<lparr>layer = Conv2DTranspose filters (2, 2) (2, 2) Valid, inbound = [node_id x],
             out_shape = (2 * t_height x, 2 * t_width x, filters)\<rparr>]
       @ (if h_crop = 0 \<and> w_crop = 0
          then [\<lparr>layer = Concatenate, inbound = [length g, node_id skip],
                  out_shape = (2 * t_height x, 2 * t_width x, filters + t_channels skip)\<rparr>]
          else [\<lparr>layer = Cropping2D ((h_crop div 2, h_crop - h_crop div 2),
                                       (w_crop div 2, w_crop - w_crop div 2)),
                  inbound = [node_id skip],
                  out_shape = (2 * t_height x, 2 * t_width x, t_channels skip)\<rparr>,
                \<lparr>layer = Concatenate, inbound = [length g, length g + 1],
                  out_shape = (2 * t_height x, 2 * t_width x, filters + t_channels skip)\<rparr>])
       @ g'"
    by blast
  then show ?thesis using u by (simp add: nth_append)
qed


text \<open>C3 at crop amounts 3 and 2: one row goes at the top, two at the bottom.\<close>

theorem C3_center_crop_witness:
  "(0::int) \<le> 11 - 8 \<and> (0::int) \<le> 10 - 8
   \<and> snd (upsampling_block \<lparr>node_id = 0, t_height = 4, t_width = 4, t_channels = 16\<rparr>
            \<lparr>node_id = 1, t_height = 11, t_width = 10, t_channels = 8\<rparr> 8 Same False 0 []) ! 1 =
       \<lparr>layer = Cropping2D ((1, 2), (1, 1)), inbound = [1], out_shape = (8, 8, 8)\<rparr>
   \<and> snd (upsampling_block \<lparr>node_id = 0, t_height = 4, t_width = 4, t_channels = 16\<rparr>
            \<lparr>node_id = 1, t_height = 11, t_width = 10, t_channels = 8\<rparr> 8 Same False 0 []) ! 2 =
       \<lparr>layer = Concatenate, inbound = [0, 1], out_shape = (8, 8, 16)\<rparr>"
proof -
  have up: "out_shape (snd (upsampling_block
        \<lparr>node_id = 0, t_height = 4, t_width = 4, t_channels = 16\<rparr>
        \<lparr>node_id = 1, t_height = 11, t_width = 10, t_channels = 8\<rparr> 8 Same False 0 [])
      ! length ([] :: graph)) = (8, 8, 8)"
    by (simp only: upsampling_block_transpose_node) simp
  from C3_center_crop [OF up, of 3 2] show ?thesis by (simp add: numeral_2_eq_2)
qed

text \<open>
  C4 (as amended). dilated_unet never inspects \<open>temperature\<close> while it builds the graph:
  with temperature 0 the build has the same outcome (the same output tensor or the same
  exception) and as many nodes as with any other temperature; the value is only stored
  in the scaling node, and the division happens when the graph is executed.
\<close>

theorem C4_temperature_not_checked:
  "fst (dilated_unet height width channels classes features depth 0 p batchnorm dropout
          dilation_layers) =
   fst (dilated_unet height width channels classes features depth temperature p batchnorm
          dropout dilation_layers)
   \<and> length (snd (dilated_unet height width channels classes features depth 0 p batchnorm
          dropout dilation_layers)) =
     length (snd (dilated_unet height width channels classes features depth temperature p
          batchnorm dropout dilation_layers))"
  by (simp add: dilated_unet_def and_then_def layer_defs split: prod.splits sum.splits)

text \<open>
  Against C4 as stated: with temperature 0 the 256 x 256 build of depth 3 succeeds.
\<close>

theorem C4_counterexample:
  "fst (dilated_unet 256 256 1 5 64 3 0 Same False 0 5) =
     Inr \<lparr>node_id = 46, t_height = 256, t_width = 256, t_channels = 5\<rparr>"
  by (rule scenario_256)

text \<open>
  C5 (as amended). An unrecognized padding mode makes the first convolution built with
  it raise ValueError, with only the input node in the graph: in the first encoder stage
  when depth is at least 1 and height and width are even, in the first bottleneck layer
  when depth is at most 0 and dilation_layers at least 1. Nothing else is checked:
  a depth of at most 0 builds what depth 0 builds, dilation_layers of at most 0 what 0
  builds, a dropout of at most 0 what dropout 0 builds, and the outcome does not depend
  on temperature.
\<close>

theorem C5_configuration_checks:
  "((1 \<le> depth \<and> even height \<and> even width) \<or> (depth \<le> 0 \<and> 1 \<le> dilation_layers) \<longrightarrow>
      dilated_unet height width channels classes features depth temperature Unrecognized
          batchnorm dropout dilation_layers =
        (Inl (ValueError ''padding''),
         [\<lparr>layer = Input, inbound = [], out_shape = (height, width, channels)\<rparr>]))
   \<and> (depth \<le> 0 \<longrightarrow>
        dilated_unet height width channels classes features depth temperature p batchnorm
            dropout dilation_layers =
        dilated_unet height width channels classes features 0 temperature p batchnorm
            dropout dilation_layers)
   \<and> (dilation_layers \<le> 0 \<longrightarrow>
        dilated_unet height width channels classes features depth temperature p batchnorm
            dropout dilation_layers =
        dilated_unet height width channels classes features depth temperature p batchnorm
            dropout 0)
   \<and> (dropout \<le> 0 \<longrightarrow>
        dilated_unet height width channels classes features depth temperature p batchnorm
            dropout dilation_layers =
        dilated_unet height width channels classes features depth temperature p batchnorm
            0 dilation_layers)
   \<and> fst (dilated_unet height width channels classes features depth temperature p batchnorm
            dropout dilation_layers) =
     fst (dilated_unet height width channels classes features depth 1 p batchnorm
            dropout dilation_layers)"
proof (intro conjI impI)
  assume "(1 \<le> depth \<and> even height \<and> even width) \<or> (depth \<le> 0 \<and> 1 \<le> dilation_layers)"
  then show "dilated_unet height width channels classes features depth temperature Unrecognized
          batchnorm dropout dilation_layers =
        (Inl (ValueError ''padding''),
         [\<lparr>layer = Input, inbound = [], out_shape = (height, width, channels)\<rparr>])"
    by (rule dilated_unet_padding)
next
  assume "depth \<le> 0"
  then show "dilated_unet height width channels classes features depth temperature p batchnorm
            dropout dilation_layers =
        dilated_unet height width channels classes features 0 temperature p batchnorm
            dropout dilation_layers"
    by (simp add: dilated_unet_def)
next
  assume "dilation_layers \<le> 0"
  then show "dilated_unet height width channels classes features depth temperature p batchnorm
            dropout dilation_layers =
        dilated_unet height width channels classes features depth temperature p batchnorm
            dropout 0"
    by (simp add: dilated_unet_def)
next
  assume d: "dropout \<le> 0"
  show "dilated_unet height width channels classes features depth temperature p batchnorm
            dropout dilation_layers =
        dilated_unet height width channels classes features depth temperature p batchnorm
            0 dilation_layers"
    by (simp only: dilated_unet_def encoder_dropout [OF d] bottleneck_dropout [OF d]
        decoder_dropout [OF d])
next
  show "fst (dilated_unet height width channels classes features depth temperature p batchnorm
            dropout dilation_layers) =
     fst (dilated_unet height width channels classes features depth 1 p batchnorm
            dropout dilation_layers)"
    by (simp add: dilated_unet_def and_then_def layer_defs split: prod.splits sum.splits)
qed

text \<open>C5 at concrete configurations, one for each of its cases.\<close>

theorem C5_configuration_checks_witness:
  "dilated_unet 64 64 1 2 64 4 1 Unrecognized False 0 5 =
     (Inl (ValueError ''padding''), [\<lparr>layer = Input, inbound = [], out_shape = (64, 64, 1)\<rparr>])
   \<and> dilated_unet 64 64 1 2 64 0 1 Unrecognized False 0 5 =
     (Inl (ValueError ''padding''), [\<lparr>layer = Input, inbound = [], out_shape = (64, 64, 1)\<rparr>])
   \<and> dilated_unet 64 64 1 2 64 (- 1) 1 Valid False 0 5 =
     dilated_unet 64 64 1 2 64 0 1 Valid False 0 5
   \<and> dilated_unet 64 64 1 2 64 4 1 Valid False 0 (- 1) =
     dilated_unet 64 64 1 2 64 4 1 Valid False 0 0
   \<and> dilated_unet 64 64 1 2 64 4 1 Valid False (- 1) 5 =
     dilated_unet 64 64 1 2 64 4 1 Valid False 0 5"
  using C5_configuration_checks [of 4 64 64 5 1 2 64 1 False 0 Valid]
    C5_configuration_checks [of 0 64 64 5 1 2 64 1 False 0 Valid]
    C5_configuration_checks [of "- 1" 64 64 5 1 2 64 1 False 0 Valid]
    C5_configuration_checks [of 4 64 64 "- 1" 1 2 64 1 False 0 Valid]
    C5_configuration_checks [of 4 64 64 5 1 2 64 1 False "- 1" Valid]
  by simp

text \<open>
  Against C5 as stated: with depth 0 (the other arguments valid) the build succeeds.
\<close>

theorem C5_counterexample:
  "fst (dilated_unet 64 64 1 2 64 0 1 Valid False 0 5) =
     Inr \<lparr>node_id = 13, t_height = 2, t_width = 2, t_channels = 2\<rparr>"
  by (simp add: eval_defs)



text \<open>
  C7. The build with its running feature counter is the build read stage by stage, in
  which encoder stage \<open>i\<close> and decoder stage \<open>i\<close> both run with \<open>features * 2 ^ i\<close>
  and the decoder takes \<open>skips[i]\<close> for i = depth - 1 down to 0. In every successful
  build the skip list has one entry per encoder stage, which is exactly \<open>depth\<close>
  entries when depth is not negative, and entry \<open>i\<close> carries the \<open>features * 2 ^ i\<close>
  channels of encoder stage \<open>i\<close>.
\<close>

theorem C7_skip_symmetry:
  "dilated_unet height width channels classes features depth temperature p batchnorm dropout
       dilation_layers =
     dilated_unet_by_stage height width channels classes features depth temperature p
       batchnorm dropout dilation_layers
   \<and> (fst (dilated_unet height width channels classes features depth temperature p batchnorm
             dropout dilation_layers) = Inr out \<longrightarrow>
        (\<exists>x skips g1.
           encoder_by_stage [0..<nat depth]
               \<lparr>node_id = 0, t_height = height, t_width = width, t_channels = channels\<rparr>
               features [] p batchnorm dropout
               [\<lparr>layer = Input, inbound = [], out_shape = (height, width, channels)\<rparr>] =
             (Inr (x, skips), g1)
           \<and> length skips = nat depth
           \<and> (0 \<le> depth \<longrightarrow> int (length skips) = depth)
           \<and> (\<forall>i<nat depth. t_channels (skips ! i) = features * 2 ^ i)))"
proof (intro conjI impI)
  show "dilated_unet height width channels classes features depth temperature p batchnorm
       dropout dilation_layers =
     dilated_unet_by_stage height width channels classes features depth temperature p
       batchnorm dropout dilation_layers"
    by (rule dilated_unet_eq_by_stage)
next
  let ?x = "\<lparr>node_id = 0, t_height = height, t_width = width, t_channels = channels\<rparr>"
  let ?g = "[\<lparr>layer = Input, inbound = [], out_shape = (height, width, channels)\<rparr>]"
  assume "fst (dilated_unet height width channels classes features depth
      temperature p batchnorm dropout dilation_layers) = Inr out"
  then obtain x skips F' g1 where
    enc: "encoder (nat depth) ?x features [] p batchnorm dropout ?g = (Inr (x, skips, F'), g1)"
    by (auto elim: dilated_unet_Inr)
  from encoder_result [OF enc] have
    len: "length skips = nat depth" and
    ch: "\<forall>i<nat depth. t_channels (skips ! i) = features * 2 ^ i"
    by simp_all
  from enc encoder_eq_by_stage [of "nat depth" ?x features 0 "[]" p batchnorm dropout]
  have "encoder_by_stage [0..<nat depth] ?x features [] p batchnorm dropout ?g =
      (Inr (x, skips), g1)"
    by (auto simp: and_then_Inr ok_def)
  moreover have "0 \<le> depth \<longrightarrow> int (length skips) = depth"
    using len by simp
  ultimately show "\<exists>x skips g1.
      encoder_by_stage [0..<nat depth] ?x features [] p batchnorm dropout ?g =
        (Inr (x, skips), g1)
      \<and> length skips = nat depth
      \<and> (0 \<le> depth \<longrightarrow> int (length skips) = depth)
      \<and> (\<forall>i<nat depth. t_channels (skips ! i) = features * 2 ^ i)"
    using len ch by blast
qed

text \<open>C7 at the 256 x 256 scenario of depth 3.\<close>

theorem C7_skip_symmetry_witness:
  "\<exists>x skips g1.
     encoder_by_stage [0..<nat 3]
         \<lparr>node_id = 0, t_height = 256, t_width = 256, t_channels = 1\<rparr> 64 [] Same False 0
         [\<lparr>layer = Input, inbound = [], out_shape = (256, 256, 1)\<rparr>] = (Inr (x, skips), g1)
     \<and> int (length skips) = 3
     \<and> (\<forall>i<nat 3. t_channels (skips ! i) = 64 * 2 ^ i)"
proof -
  have s: "fst (dilated_unet 256 256 1 5 64 3 1 Same False 0 5) =
      Inr \<lparr>node_id = 46, t_height = 256, t_width = 256, t_channels = 5\<rparr>"
    by (rule scenario_256)
  from C7_skip_symmetry [of 256 256 1 5 64 3 1 Same False 0 5
      "\<lparr>node_id = 46, t_height = 256, t_width = 256, t_channels = 5\<rparr>",
      THEN conjunct2, THEN mp, OF s]
  obtain x skips g1 where e:
    "encoder_by_stage [0..<nat 3]
         \<lparr>node_id = 0, t_height = 256, t_width = 256, t_channels = 1\<rparr> 64 [] Same False 0
         [\<lparr>layer = Input, inbound = [], out_shape = (256, 256, 1)\<rparr>] = (Inr (x, skips), g1)"
    "(0 :: int) \<le> 3 \<longrightarrow> int (length skips) = 3"
    "\<forall>i<nat 3. t_channels (skips ! i) = 64 * 2 ^ i"
    by blast
  from e(2) have "int (length skips) = 3" by simp
  with e(1,3) show ?thesis by blast
qed

text \<open>
  C8 (as amended). The call with height 284, width 284, channels 3, classes 2, depth 4,
  padding "valid" does not build: the second encoder stage receives a 139 x 139 tensor
  and its evenness assertion fails. Whenever a build with padding "valid" and depth or
  dilation_layers of at least 1 does succeed, its output is strictly smaller than the
  input in both height and width.
\<close>

theorem C8_valid_padding_shrinks:
  "fst (dilated_unet 284 284 3 2 64 4 1 Valid False 0 5) =
     Inl (AssertionError ''height % 2 == 0'')
   \<and> out_shape (last (snd (dilated_unet 284 284 3 2 64 4 1 Valid False 0 5))) = (139, 139, 64)
   \<and> (fst (dilated_unet height width channels classes features depth temperature Valid
             batchnorm dropout dilation_layers) = Inr out
        \<and> (1 \<le> depth \<or> 1 \<le> dilation_layers) \<longrightarrow>
      t_height out < height \<and> t_width out < width)"
  using scenario_284 dilated_unet_valid_shrinks by blast

text \<open>C8 at 1146 x 1146, which does build with depth 4: the output is 4 x 4.\<close>

theorem C8_valid_padding_shrinks_witness:
  "fst (dilated_unet 1146 1146 3 2 64 4 1 Valid False 0 5) =
     Inr \<lparr>node_id = 61, t_height = 4, t_width = 4, t_channels = 2\<rparr>
   \<and> t_height \<lparr>node_id = 61, t_height = 4, t_width = 4, t_channels = 2\<rparr> < 1146
   \<and> t_width \<lparr>node_id = 61, t_height = 4, t_width = 4, t_channels = 2\<rparr> < 1146"
proof -
  have b: "fst (dilated_unet 1146 1146 3 2 64 4 1 Valid False 0 5) =
     Inr \<lparr>node_id = 61, t_height = 4, t_width = 4, t_channels = 2\<rparr>"
    by (simp add: eval_defs)
  from C8_valid_padding_shrinks [of 1146 1146 3 2 64 4 1 False 0 5
      "\<lparr>node_id = 61, t_height = 4, t_width = 4, t_channels = 2\<rparr>"] b
  show ?thesis by simp
qed

text \<open>Against C8 as stated: the 284 x 284 build raises the evenness assertion.\<close>

theorem C8_counterexample:
  "fst (dilated_unet 284 284 3 2 64 4 1 Valid False 0 5) =
     Inl (AssertionError ''height % 2 == 0'')"
  using scenario_284 by simp

text \<open>
  C9. In an upsampling stage the crop amounts are the skip tensor's height and width
  minus those of the upsampled tensor, which is twice the decoder input. If the height
  amount is negative, or else the width amount, the stage raises the corresponding
  assertion right after the transposed convolution; if both are non-negative, no
  assertion is raised by the stage. Inside dilated_unet the two crop assertions are
  never raised.
\<close>

theorem C9_crop_nonnegative:
  "(t_height skip - 2 * t_height x < 0 \<longrightarrow>
      upsampling_block x skip filters p bn dr g =
        (Inl (AssertionError ''h_crop >= 0''),
         g @ [\<lparr>layer = Conv2DTranspose filters (2, 2) (2, 2) Valid, inbound = [node_id x],
                out_shape = (2 * t_height x, 2 * t_width x, filters)\<rparr>]))
   \<and> (0 \<le> t_height skip - 2 * t_height x \<and> t_width skip - 2 * t_width x < 0 \<longrightarrow>
      upsampling_block x skip filters p bn dr g =
        (Inl (AssertionError ''w_crop >= 0''),
         g @ [\<lparr>layer = Conv2DTranspose filters (2, 2) (2, 2) Valid, inbound = [node_id x],
                out_shape = (2 * t_height x, 2 * t_width x, filters)\<rparr>]))
   \<and> (0 \<le> t_height skip - 2 * t_height x \<and> 0 \<le> t_width skip - 2 * t_width x \<longrightarrow>
      (\<forall>m. fst (upsampling_block x skip filters p bn dr g) \<noteq> Inl (AssertionError m)))
   \<and> fst (dilated_unet height width channels classes features depth temperature p bn dr
             dilation_layers) \<noteq> Inl (AssertionError ''h_crop >= 0'')
   \<and> fst (dilated_unet height width channels classes features depth temperature p bn dr
             dilation_layers) \<noteq> Inl (AssertionError ''w_crop >= 0'')"
proof (intro conjI impI allI)
  assume "t_height skip - 2 * t_height x < 0"
  then show "upsampling_block x skip filters p bn dr g =
        (Inl (AssertionError ''h_crop >= 0''),
         g @ [\<lparr>layer = Conv2DTranspose filters (2, 2) (2, 2) Valid, inbound = [node_id x],
                out_shape = (2 * t_height x, 2 * t_width x, filters)\<rparr>])"
    by (simp add: upsampling_block_h_crop)
next
  assume "0 \<le> t_height skip - 2 * t_height x \<and> t_width skip - 2 * t_width x < 0"
  then show "upsampling_block x skip filters p bn dr g =
        (Inl (AssertionError ''w_crop >= 0''),
         g @ [\<lparr>layer = Conv2DTranspose filters (2, 2) (2, 2) Valid, inbound = [node_id x],
                out_shape = (2 * t_height x, 2 * t_width x, filters)\<rparr>])"
    by (simp add: upsampling_block_w_crop)
next
  fix m
  assume "0 \<le> t_height skip - 2 * t_height x \<and> 0 \<le> t_width skip - 2 * t_width x"
  with upsampling_block_fits [of x skip p filters bn dr g]
  show "fst (upsampling_block x skip filters p bn dr g) \<noteq> Inl (AssertionError m)"
    by auto
next
  show "fst (dilated_unet height width channels classes features depth temperature p bn dr
             dilation_layers) \<noteq> Inl (AssertionError ''h_crop >= 0'')"
    using dilated_unet_no_crop_error by fastforce
next
  show "fst (dilated_unet height width channels classes features depth temperature p bn dr
             dilation_layers) \<noteq> Inl (AssertionError ''w_crop >= 0'')"
    using dilated_unet_no_crop_error by fastforce
qed

text \<open>C9 at a skip tensor too low, one too narrow, and one that fits.\<close>

theorem C9_crop_nonnegative_witness:
  "upsampling_block \<lparr>node_id = 0, t_height = 4, t_width = 4, t_channels = 16\<rparr>
       \<lparr>node_id = 1, t_height = 7, t_width = 8, t_channels = 8\<rparr> 8 Valid False 0 [] =
     (Inl (AssertionError ''h_crop >= 0''),
      [\<lparr>layer = Conv2DTranspose 8 (2, 2) (2, 2) Valid, inbound = [0], out_shape = (8, 8, 8)\<rparr>])
   \<and> upsampling_block \<lparr>node_id = 0, t_height = 4, t_width = 4, t_channels = 16\<rparr>
       \<lparr>node_id = 1, t_height = 8, t_width = 7, t_channels = 8\<rparr> 8 Valid False 0 [] =
     (Inl (AssertionError ''w_crop >= 0''),
      [\<lparr>layer = Conv2DTranspose 8 (2, 2) (2, 2) Valid, inbound = [0], out_shape = (8, 8, 8)\<rparr>])
   \<and> (\<forall>m. fst (upsampling_block \<lparr>node_id = 0, t_height = 4, t_width = 4, t_channels = 16\<rparr>
       \<lparr>node_id = 1, t_height = 9, t_width = 8, t_channels = 8\<rparr> 8 Valid False 0 []) \<noteq>
     Inl (AssertionError m))"
  using C9_crop_nonnegative [of "\<lparr>node_id = 1, t_height = 7, t_width = 8, t_channels = 8\<rparr>"
      "\<lparr>node_id = 0, t_height = 4, t_width = 4, t_channels = 16\<rparr>" 8 Valid False 0 "[]"]
    C9_crop_nonnegative [of "\<lparr>node_id = 1, t_height = 8, t_width = 7, t_channels = 8\<rparr>"
      "\<lparr>node_id = 0, t_height = 4, t_width = 4, t_channels = 16\<rparr>" 8 Valid False 0 "[]"]
    C9_crop_nonnegative [of "\<lparr>node_id = 1, t_height = 9, t_width = 8, t_channels = 8\<rparr>"
      "\<lparr>node_id = 0, t_height = 4, t_width = 4, t_channels = 16\<rparr>" 8 Valid False 0 "[]"]
  by simp

text \<open>
  C10. In every upsampling stage the transposed convolution is built without the
  configured padding argument, so it has the library's default mode, and for every
  padding configuration the upsampled tensor is exactly twice as high and twice as wide
  as the decoder input: the first node the block adds is that transposed convolution.
\<close>

theorem C10_transpose_doubles:
  "snd (upsampling_block input_tensor skip_tensor filters p batchnorm dropout g) ! length g =
     \<lparr>layer = Conv2DTranspose filters (2, 2) (2, 2) Valid, inbound = [node_id input_tensor],
      out_shape = (2 * t_height input_tensor, 2 * t_width input_tensor, filters)\<rparr>"
  by (rule upsampling_block_transpose_node)

end
